theory Spec2Isabelle
  imports Main "HOL-Library.Word"
begin

unbundle bit_operations_syntax

section \<open>gosigfuzz: re-registering signal handlers on the alternate stack\<close>

text \<open>
  The program is \<^verbatim>\<open>fuzz/gosigfuzz/gosigfuzz.c\<close>: three C functions that, for ten
  signals, query the registered action with \<^verbatim>\<open>sigaction\<close>, or \<^verbatim>\<open>SA_ONSTACK\<close> into its
  flags and install the result again.  The functions are embedded as state
  transformers on a record of the process state; the operating system's table of signal
  actions is a field of that record.
\<close>

subsection \<open>Data\<close>

text \<open>
  A pointer is an address.  The program never dereferences one: handler addresses are
  only copied, and the two arguments of the entry point are not used.
\<close>

type_synonym ptr = nat

text \<open>\<^verbatim>\<open>sigset_t\<close>: a set of signal numbers.\<close>

type_synonym sigset_t = "int set"

text \<open>
  \<^verbatim>\<open>struct sigaction\<close>, with the four members the program names.  \<^verbatim>\<open>sa_flags\<close> is a C
  \<^verbatim>\<open>int\<close>, here a 32-bit word.  POSIX allows \<^verbatim>\<open>sa_handler\<close> and \<^verbatim>\<open>sa_sigaction\<close> to share
  storage; the program copies both from the same structure, so that after the two
  assignments each member holds what the queried structure held under either layout.
\<close>

record sigaction =
  sa_handler :: ptr
  sa_sigaction :: ptr
  sa_mask :: sigset_t
  sa_flags :: "32 word"

text \<open>
  The platform.  The first eleven fields are the constants of \<^verbatim>\<open><signal.h>\<close> that the
  program uses.  \<open>libc_flags\<close> are the flag bits that the C library's \<^verbatim>\<open>sigaction\<close> sets in
  every action it installs: \<^verbatim>\<open>SA_RESTORER\<close> on Linux for x86-64, none on a platform whose
  library passes the flags on as they are.  Neither the header nor the library is part
  of the repository and both differ between platforms, so the functions below take the
  platform as a parameter.
\<close>

record signal_h =
  SIGSEGV :: int
  SIGABRT :: int
  SIGALRM :: int
  SIGINT :: int
  SIGTERM :: int
  SIGBUS :: int
  SIGFPE :: int
  SIGXFSZ :: int
  SIGUSR1 :: int
  SIGUSR2 :: int
  SA_ONSTACK :: "32 word"
  libc_flags :: "32 word"

text \<open>
  One call of \<^verbatim>\<open>sigaction(signum, act, oldact)\<close> as the operating system sees it: the
  signal number, the structure \<open>act\<close> points to (\<open>None\<close> for \<^verbatim>\<open>NULL\<close>), and whether
  \<open>oldact\<close> is a non-null pointer.
\<close>

datatype syscall =
  Sigaction_call (call_signum: int) (call_act: "sigaction option") (call_oldact: bool)

text \<open>
  The process state: \<open>handlers\<close> is the table of signal actions kept by the operating
  system, defined at the signal numbers whose action \<^verbatim>\<open>sigaction\<close> lets the process
  change; \<open>unchangeable\<close> holds the actions of the signals that can be queried but
  neither caught nor blocked (\<^verbatim>\<open>SIGKILL\<close> and \<^verbatim>\<open>SIGSTOP\<close>); \<open>calls\<close> is the log of the
  \<^verbatim>\<open>sigaction\<close> calls made so far, oldest first; \<open>memory\<close> is the content of the process's
  memory outside the local variables of the functions modelled here (the objects that
  \<^verbatim>\<open>argc\<close> and \<^verbatim>\<open>argv\<close> point to live there).
\<close>

record process =
  handlers :: "int \<rightharpoonup> sigaction"
  unchangeable :: "int \<rightharpoonup> sigaction"
  calls :: "syscall list"
  memory :: "ptr \<Rightarrow> 8 word"

text \<open>
  C does not initialise automatic variables.  A \<open>frame\<close> is the indeterminate content that
  the locals \<^verbatim>\<open>new_action\<close> and \<^verbatim>\<open>old_action\<close> of \<^verbatim>\<open>fixSignalHandler\<close> have on entry.
\<close>

type_synonym frame = "sigaction \<times> sigaction"

subsection \<open>The library calls\<close>

text \<open>
  \<^verbatim>\<open>sigemptyset(&set)\<close> empties the set and returns 0.  The result is the pair of the
  return value and the new content of the set.
\<close>

definition sigemptyset :: "sigset_t \<Rightarrow> int \<times> sigset_t" where
  "sigemptyset st = (0, {})"

text \<open>
  What the table holds after the action \<open>a\<close> was given to \<^verbatim>\<open>sigaction\<close> for installation:
  the signals that cannot be blocked are taken out of the mask, and the library's flags
  are set.  The handler members and the other flag bits are stored as they are given.
\<close>

definition installed :: "signal_h \<Rightarrow> process \<Rightarrow> sigaction \<Rightarrow> sigaction" where
  "installed H p a =
     a\<lparr>sa_mask := sa_mask a - dom (unchangeable p),
       sa_flags := sa_flags a OR libc_flags H\<rparr>"

text \<open>
  \<^verbatim>\<open>sigaction(signum, act, oldact)\<close> as the C library of the platform provides it.
  For a signal whose action can be changed, the call returns 0, stores the current
  action through \<open>oldact\<close> when that is not null, and installs \<open>act\<close> when that is not
  null.  For a signal that cannot be caught, a query (\<open>act\<close> null) does the same, and
  an installation is refused.  Any other signal number is refused.  A refused call
  returns \<open>-1\<close>, writes nothing and changes nothing.  The result is the return value,
  what was written through \<open>oldact\<close> (\<open>None\<close> when nothing was written), and the new
  state.  Every call is logged, whatever its outcome.  A query returns the flags
  as the table holds them, the library's flags included.
\<close>

definition sigaction ::
  "signal_h \<Rightarrow> int \<Rightarrow> sigaction option \<Rightarrow> bool \<Rightarrow> process \<Rightarrow>
     int \<times> sigaction option \<times> process" where
  "sigaction H signum act oldact p =
     (let p' = p\<lparr>calls := calls p @ [Sigaction_call signum act oldact]\<rparr> in
      case handlers p signum of
        Some cur \<Rightarrow>
          (0,
           if oldact then Some cur else None,
           case act of
             None \<Rightarrow> p'
           | Some a \<Rightarrow> p'\<lparr>handlers := (handlers p)(signum \<mapsto> installed H p a)\<rparr>)
      | None \<Rightarrow>
          (case unchangeable p signum of
             Some cur \<Rightarrow>
               (case act of
                  None \<Rightarrow> (0, if oldact then Some cur else None, p')
                | Some a \<Rightarrow> (- 1, None, p'))
           | None \<Rightarrow> (- 1, None, p')))"

subsection \<open>The program\<close>

text \<open>
  \<^verbatim>\<open>fixSignalHandler\<close>, statement by statement.  Both return values of \<^verbatim>\<open>sigaction\<close> and
  the one of \<^verbatim>\<open>sigemptyset\<close> are dropped, as in the source.  When the query fails,
  \<^verbatim>\<open>old_action\<close> keeps the content it had on entry.
\<close>

definition fixSignalHandler :: "signal_h \<Rightarrow> frame \<Rightarrow> int \<Rightarrow> process \<Rightarrow> process" where
  "fixSignalHandler H fr signum p =
     (let new_action = fst fr;
          old_action = snd fr;
          new_action = new_action\<lparr>sa_mask := snd (sigemptyset (sa_mask new_action))\<rparr>;
          (r1, out1, p) = sigaction H signum None True p;
          old_action = (case out1 of None \<Rightarrow> old_action | Some a \<Rightarrow> a);
          new_action = new_action\<lparr>sa_flags := sa_flags old_action OR SA_ONSTACK H\<rparr>;
          new_action = new_action\<lparr>sa_sigaction := sa_sigaction old_action\<rparr>;
          new_action = new_action\<lparr>sa_handler := sa_handler old_action\<rparr>;
          (r2, out2, p) = sigaction H signum (Some new_action) False p
      in p)"

text \<open>
  \<^verbatim>\<open>FixStackSignalHandler\<close>: the ten calls in the order of the source.  \<open>fr k\<close> is the frame
  of the call number \<open>k\<close>.
\<close>

definition FixStackSignalHandler :: "signal_h \<Rightarrow> (nat \<Rightarrow> frame) \<Rightarrow> process \<Rightarrow> process" where
  "FixStackSignalHandler H fr p =
     (let p = fixSignalHandler H (fr 0) (SIGSEGV H) p;
          p = fixSignalHandler H (fr 1) (SIGABRT H) p;
          p = fixSignalHandler H (fr 2) (SIGALRM H) p;
          p = fixSignalHandler H (fr 3) (SIGINT H) p;
          p = fixSignalHandler H (fr 4) (SIGTERM H) p;
          p = fixSignalHandler H (fr 5) (SIGBUS H) p;
          p = fixSignalHandler H (fr 6) (SIGFPE H) p;
          p = fixSignalHandler H (fr 7) (SIGXFSZ H) p;
          p = fixSignalHandler H (fr 8) (SIGUSR1 H) p;
          p = fixSignalHandler H (fr 9) (SIGUSR2 H) p
      in p)"

text \<open>
  \<^verbatim>\<open>LLVMFuzzerInitialize(int *argc, char ***argv)\<close>: the return value and the new state.
\<close>

definition LLVMFuzzerInitialize ::
  "signal_h \<Rightarrow> (nat \<Rightarrow> frame) \<Rightarrow> ptr \<Rightarrow> ptr \<Rightarrow> process \<Rightarrow> int \<times> process" where
  "LLVMFuzzerInitialize H fr argc argv p =
     (let p = FixStackSignalHandler H fr p in (0, p))"

subsection \<open>Notions used in the statements\<close>

text \<open>The arguments of the ten calls in \<^verbatim>\<open>FixStackSignalHandler\<close>, in order.\<close>

definition fixed_signals :: "signal_h \<Rightarrow> int list" where
  "fixed_signals H =
     [SIGSEGV H, SIGABRT H, SIGALRM H, SIGINT H, SIGTERM H,
      SIGBUS H, SIGFPE H, SIGXFSZ H, SIGUSR1 H, SIGUSR2 H]"

text \<open>\<^verbatim>\<open>fixSignalHandler\<close> along a list of signal numbers, the first call having number \<open>k\<close>.\<close>

fun fix_each :: "signal_h \<Rightarrow> (nat \<Rightarrow> frame) \<Rightarrow> nat \<Rightarrow> int list \<Rightarrow> process \<Rightarrow> process" where
  "fix_each H fr k [] p = p"
| "fix_each H fr k (s # ss) p = fix_each H fr (Suc k) ss (fixSignalHandler H (fr k) s p)"

text \<open>
  The action that \<^verbatim>\<open>fixSignalHandler\<close> builds from the action it has read, and the
  action that the table holds once that one is installed.
\<close>

definition with_onstack :: "signal_h \<Rightarrow> sigaction \<Rightarrow> sigaction" where
  "with_onstack H old =
     \<lparr>sa_handler = sa_handler old, sa_sigaction = sa_sigaction old,
      sa_mask = {}, sa_flags = sa_flags old OR SA_ONSTACK H\<rparr>"

definition reinstalled :: "signal_h \<Rightarrow> sigaction \<Rightarrow> sigaction" where
  "reinstalled H old =
     \<lparr>sa_handler = sa_handler old, sa_sigaction = sa_sigaction old,
      sa_mask = {}, sa_flags = (sa_flags old OR SA_ONSTACK H) OR libc_flags H\<rparr>"

text \<open>The calls logged between the state \<open>p\<close> and a later state \<open>p'\<close>.\<close>

definition calls_made :: "process \<Rightarrow> process \<Rightarrow> syscall list" where
  "calls_made p p' = drop (length (calls p)) (calls p')"

text \<open>A call that installs an action, and the calls that concern one signal.\<close>

definition is_install :: "syscall \<Rightarrow> bool" where
  "is_install c = (call_act c \<noteq> None)"

definition calls_on :: "int \<Rightarrow> syscall list \<Rightarrow> syscall list" where
  "calls_on s cs = filter (\<lambda>c. call_signum c = s) cs"

text \<open>
  The reference sequence for one signal, in the words of the specification: "read its
  current handler configuration, add an execute-handler-on-alternate-stack flag, and
  reinstall it".  The configuration that is reinstalled is the one that was read, with
  the flag added to its flags.  Where the query is refused there is nothing to
  reinstall.
\<close>

definition spec_read_modify_write :: "signal_h \<Rightarrow> int \<Rightarrow> process \<Rightarrow> process" where
  "spec_read_modify_write H signum p =
     (let (r1, out1, p) = sigaction H signum None True p in
      case out1 of
        None \<Rightarrow> p
      | Some old_action \<Rightarrow>
          (let new_action = old_action\<lparr>sa_flags := sa_flags old_action OR SA_ONSTACK H\<rparr>;
               (r2, out2, p) = sigaction H signum (Some new_action) False p
           in p))"

text \<open>
  The same sequence, except that the configuration is reinstalled with an empty mask.
\<close>

definition read_modify_write_empty_mask :: "signal_h \<Rightarrow> int \<Rightarrow> process \<Rightarrow> process" where
  "read_modify_write_empty_mask H signum p =
     (let (r1, out1, p) = sigaction H signum None True p in
      case out1 of
        None \<Rightarrow> p
      | Some old_action \<Rightarrow>
          (let new_action =
                 old_action\<lparr>sa_flags := sa_flags old_action OR SA_ONSTACK H, sa_mask := {}\<rparr>;
               (r2, out2, p) = sigaction H signum (Some new_action) False p
           in p))"

subsection \<open>A concrete platform and a concrete process\<close>

text \<open>
  Linux for x86-64 with the GNU C library, where the fuzzing images run.  The library
  sets \<^verbatim>\<open>SA_RESTORER\<close> (\<^verbatim>\<open>0x04000000\<close>) in every action it installs.  The platform
  instantiates the theorems below, which hold for every platform.
\<close>

definition linux_x86_64 :: signal_h where
  "linux_x86_64 =
     \<lparr>SIGSEGV = 11, SIGABRT = 6, SIGALRM = 14, SIGINT = 2, SIGTERM = 15,
      SIGBUS = 7, SIGFPE = 8, SIGXFSZ = 25, SIGUSR1 = 10, SIGUSR2 = 12,
      SA_ONSTACK = 0x08000000, libc_flags = 0x04000000\<rparr>"

text \<open>The default action of a signal in a process that has installed nothing.\<close>

definition default_action :: sigaction where
  "default_action = \<lparr>sa_handler = 0, sa_sigaction = 0, sa_mask = {}, sa_flags = 0\<rparr>"

text \<open>
  An action with a three-argument handler (\<^verbatim>\<open>SA_SIGINFO\<close>, 4) that restarts system calls
  (\<^verbatim>\<open>SA_RESTART\<close>, \<^verbatim>\<open>0x10000000\<close>) and has a non-empty mask.
\<close>

definition go_action :: sigaction where
  "go_action =
     \<lparr>sa_handler = 4198400, sa_sigaction = 4198400, sa_mask = {2, 15},
      sa_flags = 0x10000004\<rparr>"

text \<open>The same action with \<^verbatim>\<open>SA_ONSTACK\<close> already set.\<close>

definition go_action_onstack :: sigaction where
  "go_action_onstack =
     \<lparr>sa_handler = 4198400, sa_sigaction = 4198400, sa_mask = {2, 15},
      sa_flags = 0x18000004\<rparr>"

text \<open>The same action with \<^verbatim>\<open>SA_ONSTACK\<close> and \<^verbatim>\<open>SA_RESTORER\<close> already set.\<close>

definition go_action_installed :: sigaction where
  "go_action_installed =
     \<lparr>sa_handler = 4198400, sa_sigaction = 4198400, sa_mask = {2, 15},
      sa_flags = 0x1c000004\<rparr>"

text \<open>
  A Linux process that has made no call yet.  The signals 1 to 64 carry the action \<open>a\<close>,
  except \<^verbatim>\<open>SIGKILL\<close> (9) and \<^verbatim>\<open>SIGSTOP\<close> (19), which keep the default action for ever, and
  the two signals that the library keeps for itself (32 and 33), which it refuses.
\<close>

definition start :: "sigaction \<Rightarrow> process" where
  "start a =
     \<lparr>handlers =
        (\<lambda>s. if 1 \<le> s \<and> s \<le> 64 \<and> s \<noteq> 9 \<and> s \<noteq> 19 \<and> s \<noteq> 32 \<and> s \<noteq> 33
             then Some a else None),
      unchangeable = (\<lambda>s. if s = 9 \<or> s = 19 then Some default_action else None),
      calls = [],
      memory = (\<lambda>_. 0)\<rparr>"

text \<open>A process in which \<^verbatim>\<open>sigaction\<close> refuses every signal number.\<close>

definition refusing :: process where
  "refusing =
     \<lparr>handlers = Map.empty, unchangeable = Map.empty, calls = [], memory = (\<lambda>_. 0)\<rparr>"

text \<open>Frames filled with zeros, and frames filled with ones.\<close>

definition zero_frames :: "nat \<Rightarrow> frame" where
  "zero_frames k =
     (\<lparr>sa_handler = 0, sa_sigaction = 0, sa_mask = {}, sa_flags = 0\<rparr>,
      \<lparr>sa_handler = 0, sa_sigaction = 0, sa_mask = {}, sa_flags = 0\<rparr>)"

definition one_frames :: "nat \<Rightarrow> frame" where
  "one_frames k =
     (\<lparr>sa_handler = 1, sa_sigaction = 1, sa_mask = {1}, sa_flags = 1\<rparr>,
      \<lparr>sa_handler = 1, sa_sigaction = 1, sa_mask = {1}, sa_flags = 1\<rparr>)"

section \<open>Properties\<close>

subsection \<open>One call of \<^verbatim>\<open>fixSignalHandler\<close>\<close>

text \<open>
  Every member of \<^verbatim>\<open>new_action\<close> is assigned before the structure is installed, so its
  content on entry does not matter.
\<close>

lemma all_fields_assigned:
  "(r::sigaction)\<lparr>sa_mask := m, sa_flags := f, sa_sigaction := g, sa_handler := h\<rparr> =
     \<lparr>sa_handler = h, sa_sigaction = g, sa_mask = m, sa_flags = f\<rparr>"
  by (cases r) simp

text \<open>The ten calls are \<open>fix_each\<close> along \<open>fixed_signals\<close>.\<close>

lemma FixStackSignalHandler_fix_each:
  "FixStackSignalHandler H fr p = fix_each H fr 0 (fixed_signals H) p"
  by (simp add: FixStackSignalHandler_def fixed_signals_def numeral_eq_Suc)

text \<open>When \<^verbatim>\<open>sigaction\<close> succeeds and when it fails.\<close>

lemma sigaction_return:
  "fst (sigaction H signum act oldact p) =
     (if handlers p signum \<noteq> None \<or> (unchangeable p signum \<noteq> None \<and> act = None)
      then 0 else - 1)"
  by (auto simp: sigaction_def Let_def split: option.splits)

text \<open>
  The table after one call: unchanged when the installation is refused, and otherwise
  updated at the signal with what the system stores of the action that was built.
\<close>

lemma installed_with_onstack: "installed H p (with_onstack H old) = reinstalled H old"
  by (simp add: installed_def with_onstack_def reinstalled_def)

lemma handlers_fixSignalHandler:
  "handlers (fixSignalHandler H fr signum p) =
     (case handlers p signum of
        None \<Rightarrow> handlers p
      | Some old \<Rightarrow> (handlers p)(signum \<mapsto> reinstalled H old))"
  by (simp add: fixSignalHandler_def sigaction_def sigemptyset_def installed_def
        reinstalled_def Let_def all_fields_assigned split: option.splits)

lemma memory_fixSignalHandler: "memory (fixSignalHandler H fr signum p) = memory p"
  by (simp add: fixSignalHandler_def sigaction_def Let_def split: option.splits)

lemma calls_fixSignalHandler:
  "calls (fixSignalHandler H fr signum p) =
     calls p @
     [Sigaction_call signum None True,
      Sigaction_call signum
        (Some (with_onstack H
           (case handlers p signum of
              Some old \<Rightarrow> old
            | None \<Rightarrow> (case unchangeable p signum of Some cur \<Rightarrow> cur | None \<Rightarrow> snd fr))))
        False]"
  by (simp add: fixSignalHandler_def sigaction_def sigemptyset_def with_onstack_def Let_def
        all_fields_assigned split: option.splits)

subsection \<open>The calls in sequence\<close>

lemma or_or_idem: "((((x::32 word) OR a) OR b) OR a) OR b = (x OR a) OR b"
  by (rule bit_eqI) (auto simp: bit_or_iff)

lemma reinstalled_idem: "reinstalled H (reinstalled H a) = reinstalled H a"
  by (simp add: reinstalled_def or_or_idem)

lemma handlers_fix_each:
  "handlers (fix_each H fr k ss p) s =
     (if s \<in> set ss then map_option (reinstalled H) (handlers p s) else handlers p s)"
  by (induction ss arbitrary: k p)
     (auto simp: handlers_fixSignalHandler reinstalled_idem split: option.splits)

lemma memory_fix_each: "memory (fix_each H fr k ss p) = memory p"
  by (induction ss arbitrary: k p) (simp_all add: memory_fixSignalHandler)

text \<open>The log only grows, by two calls for each signal.\<close>

lemma drop_prefix: "xs = ps @ ys \<Longrightarrow> drop (length ps) xs = ys"
  by simp

lemma calls_fix_each_extends:
  "\<exists>cs. calls (fix_each H fr k ss p) = calls p @ cs"
proof (induction ss arbitrary: k p)
  case Nil
  show ?case by simp
next
  case (Cons s ss)
  let ?q = "fixSignalHandler H (fr k) s p"
  obtain cs where "calls (fix_each H fr (Suc k) ss ?q) = calls ?q @ cs"
    using Cons.IH by blast
  then have "calls (fix_each H fr k (s # ss) p) =
      calls p @ (calls_made p ?q @ cs)"
    by (simp add: calls_made_def calls_fixSignalHandler)
  then show ?case by blast
qed

lemma calls_made_step:
  "calls_made p (fix_each H fr k ss (fixSignalHandler H f s p)) =
     calls_made p (fixSignalHandler H f s p) @
     calls_made (fixSignalHandler H f s p)
       (fix_each H fr k ss (fixSignalHandler H f s p))"
proof -
  let ?q = "fixSignalHandler H f s p"
  let ?r = "fix_each H fr k ss ?q"
  obtain as where as: "calls ?q = calls p @ as"
    by (simp add: calls_fixSignalHandler)
  obtain bs where bs: "calls ?r = calls ?q @ bs"
    using calls_fix_each_extends by blast
  from as have 1: "calls_made p ?q = as"
    unfolding calls_made_def by (rule drop_prefix)
  from bs have 2: "calls_made ?q ?r = bs"
    unfolding calls_made_def by (rule drop_prefix)
  from as bs have "calls ?r = calls p @ (as @ bs)" by simp
  then have "calls_made p ?r = as @ bs"
    unfolding calls_made_def by (rule drop_prefix)
  with 1 2 show ?thesis by simp
qed

lemma calls_made_fixSignalHandler:
  "calls_made p (fixSignalHandler H fr signum p) =
     [Sigaction_call signum None True,
      Sigaction_call signum
        (Some (with_onstack H
           (case handlers p signum of
              Some old \<Rightarrow> old
            | None \<Rightarrow> (case unchangeable p signum of Some cur \<Rightarrow> cur | None \<Rightarrow> snd fr))))
        False]"
  by (simp add: calls_made_def calls_fixSignalHandler)

lemma is_install_call: "is_install (Sigaction_call s a b) = (a \<noteq> None)"
  by (simp add: is_install_def)



lemma calls_on_absent:
  "s \<notin> set ss \<Longrightarrow> calls_on s (calls_made p (fix_each H fr k ss p)) = []"
proof (induction ss arbitrary: k p)
  case Nil
  show ?case by (simp add: calls_made_def calls_on_def)
next
  case (Cons x xs)
  then show ?case
    by (simp add: calls_made_step calls_made_fixSignalHandler calls_on_def)
qed

lemma calls_on_present:
  "distinct ss \<Longrightarrow> s \<in> set ss \<Longrightarrow> handlers p s = Some old \<Longrightarrow>
   calls_on s (calls_made p (fix_each H fr k ss p)) =
     [Sigaction_call s None True, Sigaction_call s (Some (with_onstack H old)) False]"
proof (induction ss arbitrary: k p)
  case Nil
  then show ?case by simp
next
  case (Cons x xs)
  let ?q = "fixSignalHandler H (fr k) x p"
  show ?case
  proof (cases "x = s")
    case True
    with Cons.prems have "s \<notin> set xs" by simp
    then have "calls_on s (calls_made ?q (fix_each H fr (Suc k) xs ?q)) = []"
      by (rule calls_on_absent)
    with True Cons.prems show ?thesis
      by (simp add: calls_made_step calls_made_fixSignalHandler calls_on_def)
  next
    case False
    with Cons.prems have in_xs: "s \<in> set xs" and dist: "distinct xs" by simp_all
    from False Cons.prems have "handlers ?q s = Some old"
      by (simp add: handlers_fixSignalHandler split: option.splits)
    with dist in_xs
    have "calls_on s (calls_made ?q (fix_each H fr (Suc k) xs ?q)) =
            [Sigaction_call s None True, Sigaction_call s (Some (with_onstack H old)) False]"
      by (rule Cons.IH)
    with False show ?thesis
      by (simp add: calls_made_step calls_made_fixSignalHandler calls_on_def)
  qed
qed




subsection \<open>Adding flags to a word of flags\<close>

lemma or_and_first: "(((x::32 word) OR a) OR b) AND a = a"
  by (rule bit_eqI) (auto simp: bit_and_iff bit_or_iff)

lemma or_and_second: "(((x::32 word) OR a) OR b) AND b = b"
  by (rule bit_eqI) (auto simp: bit_and_iff bit_or_iff)

lemma or_and_not_both: "(((x::32 word) OR a) OR b) AND NOT (a OR b) = x AND NOT (a OR b)"
  by (rule bit_eqI) (auto simp: bit_and_iff bit_or_iff bit_not_iff)

lemma and_both_or: "(x::32 word) AND (a OR b) = a OR b \<Longrightarrow> (x OR a) OR b = x"
  by (metis and.commute or.assoc word_ao_absorbs(2))

subsection \<open>The entry point\<close>

lemma handlers_init:
  "handlers (snd (LLVMFuzzerInitialize H fr argc argv p)) s =
     (if s \<in> set (fixed_signals H) then map_option (reinstalled H) (handlers p s)
      else handlers p s)"
  by (simp add: LLVMFuzzerInitialize_def FixStackSignalHandler_fix_each handlers_fix_each)

lemma handlers_FixStackSignalHandler:
  "handlers (FixStackSignalHandler H fr p) s =
     (if s \<in> set (fixed_signals H) then map_option (reinstalled H) (handlers p s)
      else handlers p s)"
  by (simp add: FixStackSignalHandler_fix_each handlers_fix_each)

lemma snd_init: "snd (LLVMFuzzerInitialize H fr argc argv p) = FixStackSignalHandler H fr p"
  by (simp add: LLVMFuzzerInitialize_def)

subsection \<open>The reference sequences\<close>

text \<open>
  One call of \<^verbatim>\<open>fixSignalHandler\<close> on a signal with a registered action is the reference
  sequence with an empty mask, state for state.
\<close>

lemma fixSignalHandler_is_reference:
  "handlers p signum = Some old \<Longrightarrow>
   fixSignalHandler H fr signum p = read_modify_write_empty_mask H signum p"
  by (simp add: fixSignalHandler_def read_modify_write_empty_mask_def sigaction_def
        sigemptyset_def Let_def all_fields_assigned)
     (cases old, simp)

text \<open>The entry that the reference sequence of the specification leaves.\<close>

lemma handlers_spec_read_modify_write:
  "handlers p signum = Some old \<Longrightarrow>
   handlers (spec_read_modify_write H signum p) signum =
     Some (old\<lparr>sa_mask := sa_mask old - dom (unchangeable p),
               sa_flags := (sa_flags old OR SA_ONSTACK H) OR libc_flags H\<rparr>)"
  by (simp add: spec_read_modify_write_def sigaction_def installed_def Let_def)

section \<open>The claims of the specification\<close>

text \<open>
  Claim C1.  For every signal number among the ten of \<^verbatim>\<open>FixStackSignalHandler\<close> that has a
  registered action, the action registered after \<^verbatim>\<open>LLVMFuzzerInitialize\<close> has every bit of
  \<^verbatim>\<open>SA_ONSTACK\<close> set in its flags and every bit that the C library sets on installation;
  every other bit of its flags is as before.  The flags are the old flags with
  \<^verbatim>\<open>SA_ONSTACK\<close> and the library's flags added.
\<close>

theorem onstack_and_library_flags_added:
  assumes "s \<in> set (fixed_signals H)" and "handlers p s = Some old"
  shows "\<exists>new. handlers (snd (LLVMFuzzerInitialize H fr argc argv p)) s = Some new \<and>
           sa_flags new = (sa_flags old OR SA_ONSTACK H) OR libc_flags H \<and>
           sa_flags new AND SA_ONSTACK H = SA_ONSTACK H \<and>
           sa_flags new AND libc_flags H = libc_flags H \<and>
           sa_flags new AND NOT (SA_ONSTACK H OR libc_flags H) =
             sa_flags old AND NOT (SA_ONSTACK H OR libc_flags H)"
proof -
  have new: "handlers (snd (LLVMFuzzerInitialize H fr argc argv p)) s = Some (reinstalled H old)"
    using assms by (simp add: handlers_init)
  have flags: "sa_flags (reinstalled H old) = (sa_flags old OR SA_ONSTACK H) OR libc_flags H"
    by (simp add: reinstalled_def)
  show ?thesis
  proof (intro exI conjI)
    show "handlers (snd (LLVMFuzzerInitialize H fr argc argv p)) s = Some (reinstalled H old)"
      by (rule new)
    show "sa_flags (reinstalled H old) = (sa_flags old OR SA_ONSTACK H) OR libc_flags H"
      by (rule flags)
    show "sa_flags (reinstalled H old) AND SA_ONSTACK H = SA_ONSTACK H"
      unfolding flags by (rule or_and_first)
    show "sa_flags (reinstalled H old) AND libc_flags H = libc_flags H"
      unfolding flags by (rule or_and_second)
    show "sa_flags (reinstalled H old) AND NOT (SA_ONSTACK H OR libc_flags H) =
        sa_flags old AND NOT (SA_ONSTACK H OR libc_flags H)"
      unfolding flags by (rule or_and_not_both)
  qed
qed

text \<open>On Linux, for \<^verbatim>\<open>SIGSEGV\<close> (11) with an action that has two flags set.\<close>

theorem onstack_and_library_flags_added_witness:
  "11 \<in> set (fixed_signals linux_x86_64) \<and>
   handlers (start go_action) 11 = Some go_action \<and>
   (\<exists>new. handlers (snd (LLVMFuzzerInitialize linux_x86_64 zero_frames 0 0 (start go_action))) 11
             = Some new \<and>
          sa_flags new = 0x1c000004 \<and>
          sa_flags new AND 0x08000000 = 0x08000000 \<and>
          sa_flags new AND 0x04000000 = 0x04000000 \<and>
          sa_flags new AND NOT 0x0c000000 = 0x10000004)"
proof -
  have h1: "11 \<in> set (fixed_signals linux_x86_64)"
    by (simp add: fixed_signals_def linux_x86_64_def)
  have h2: "handlers (start go_action) 11 = Some go_action"
    by (simp add: start_def)
  show ?thesis
    using h1 h2 onstack_and_library_flags_added [OF h1 h2, of zero_frames 0 0]
    by (simp add: linux_x86_64_def go_action_def)
qed

text \<open>
  Claim C1 without the exception does not hold.  On Linux, in a process that has installed
  nothing, the flags of \<^verbatim>\<open>SIGSEGV\<close> go from 0 to \<^verbatim>\<open>0x0c000000\<close>: \<^verbatim>\<open>SA_RESTORER\<close> is another
  flag than \<^verbatim>\<open>SA_ONSTACK\<close>, and it is not as before.
\<close>

theorem other_flag_bits_counterexample:
  "11 \<in> set (fixed_signals linux_x86_64) \<and>
   map_option sa_flags (handlers (start default_action) 11) = Some 0 \<and>
   map_option sa_flags
     (handlers (snd (LLVMFuzzerInitialize linux_x86_64 zero_frames 0 0 (start default_action))) 11)
     = Some 0x0c000000 \<and>
   (0x0c000000 :: 32 word) AND NOT (SA_ONSTACK linux_x86_64) \<noteq>
     0 AND NOT (SA_ONSTACK linux_x86_64)"
  by (simp add: handlers_init fixed_signals_def linux_x86_64_def start_def default_action_def
        reinstalled_def)

text \<open>
  Claim C2.  For every signal number among the ten that has a registered action, the
  members \<^verbatim>\<open>sa_handler\<close> and \<^verbatim>\<open>sa_sigaction\<close> of the action registered after
  \<^verbatim>\<open>LLVMFuzzerInitialize\<close> are those registered before.
\<close>

theorem handler_fields_preserved:
  assumes "s \<in> set (fixed_signals H)" and "handlers p s = Some old"
  shows "\<exists>new. handlers (snd (LLVMFuzzerInitialize H fr argc argv p)) s = Some new \<and>
           sa_handler new = sa_handler old \<and> sa_sigaction new = sa_sigaction old"
  using assms by (simp add: handlers_init reinstalled_def)

text \<open>On Linux, for \<^verbatim>\<open>SIGABRT\<close> (6).\<close>

theorem handler_fields_preserved_witness:
  "6 \<in> set (fixed_signals linux_x86_64) \<and>
   handlers (start go_action) 6 = Some go_action \<and>
   (\<exists>new. handlers (snd (LLVMFuzzerInitialize linux_x86_64 zero_frames 0 0 (start go_action))) 6
             = Some new \<and>
          sa_handler new = 4198400 \<and> sa_sigaction new = 4198400)"
proof -
  have h1: "6 \<in> set (fixed_signals linux_x86_64)"
    by (simp add: fixed_signals_def linux_x86_64_def)
  have h2: "handlers (start go_action) 6 = Some go_action"
    by (simp add: start_def)
  show ?thesis
    using h1 h2 handler_fields_preserved [OF h1 h2, of zero_frames 0 0]
    by (simp add: go_action_def)
qed

text \<open>
  Claim C3.  For every signal among the ten (their numbers being distinct, as POSIX
  requires) that has a registered action, the effect of initialization on the entry of
  that signal is that of the reference sequence with an empty mask: query the current
  action, form the action with the handler members that were read, the flags that were
  read with \<^verbatim>\<open>SA_ONSTACK\<close> added and an empty mask, and install it.  The calls that
  initialization makes for the signal are the calls of that sequence, and exactly one of
  them installs an action.
\<close>

theorem initialization_is_read_modify_write_empty_mask:
  assumes "distinct (fixed_signals H)"
    and "s \<in> set (fixed_signals H)"
    and "handlers p s = Some old"
  shows "\<exists>new. handlers (snd (LLVMFuzzerInitialize H fr argc argv p)) s = Some new \<and>
           handlers (read_modify_write_empty_mask H s p) s = Some new \<and>
           calls_on s (calls_made p (snd (LLVMFuzzerInitialize H fr argc argv p))) =
             calls_made p (read_modify_write_empty_mask H s p) \<and>
           length (filter is_install
             (calls_on s (calls_made p (snd (LLVMFuzzerInitialize H fr argc argv p))))) = 1"
proof -
  let ?p' = "snd (LLVMFuzzerInitialize H fr argc argv p)"
  let ?r = "read_modify_write_empty_mask H s p"
  have p': "?p' = fix_each H fr 0 (fixed_signals H) p"
    by (simp add: snd_init FixStackSignalHandler_fix_each)
  have r: "?r = fixSignalHandler H (fr 0) s p"
    using assms(3) by (rule fixSignalHandler_is_reference [symmetric])
  have new: "handlers ?p' s = Some (reinstalled H old)"
    using assms by (simp add: handlers_init)
  have ref: "handlers ?r s = Some (reinstalled H old)"
    unfolding r using assms(3) by (simp add: handlers_fixSignalHandler)
  have cs: "calls_on s (calls_made p ?p') =
      [Sigaction_call s None True, Sigaction_call s (Some (with_onstack H old)) False]"
    unfolding p' using assms by (rule calls_on_present)
  have rs: "calls_made p ?r =
      [Sigaction_call s None True, Sigaction_call s (Some (with_onstack H old)) False]"
    unfolding r using assms(3) by (simp add: calls_made_fixSignalHandler)
  have one: "length (filter is_install (calls_on s (calls_made p ?p'))) = 1"
    unfolding cs by (simp add: is_install_call)
  from new ref cs rs one show ?thesis by simp
qed

text \<open>On Linux, for \<^verbatim>\<open>SIGALRM\<close> (14).\<close>

theorem initialization_is_read_modify_write_empty_mask_witness:
  "distinct (fixed_signals linux_x86_64) \<and>
   14 \<in> set (fixed_signals linux_x86_64) \<and>
   handlers (start go_action) 14 = Some go_action \<and>
   (\<exists>new. handlers (snd (LLVMFuzzerInitialize linux_x86_64 zero_frames 0 0 (start go_action))) 14
             = Some new \<and>
          handlers (read_modify_write_empty_mask linux_x86_64 14 (start go_action)) 14
             = Some new \<and>
          calls_on 14 (calls_made (start go_action)
              (snd (LLVMFuzzerInitialize linux_x86_64 zero_frames 0 0 (start go_action)))) =
            calls_made (start go_action)
              (read_modify_write_empty_mask linux_x86_64 14 (start go_action)) \<and>
          length (filter is_install
            (calls_on 14 (calls_made (start go_action)
               (snd (LLVMFuzzerInitialize linux_x86_64 zero_frames 0 0 (start go_action)))))) = 1)"
proof -
  have h0: "distinct (fixed_signals linux_x86_64)"
    by (simp add: fixed_signals_def linux_x86_64_def)
  have h1: "14 \<in> set (fixed_signals linux_x86_64)"
    by (simp add: fixed_signals_def linux_x86_64_def)
  have h2: "handlers (start go_action) 14 = Some go_action"
    by (simp add: start_def)
  show ?thesis
    using h0 h1 h2
      initialization_is_read_modify_write_empty_mask [OF h0 h1 h2, of zero_frames 0 0]
    by simp
qed

text \<open>
  Claim C3 with the reference sequence of the specification, which reinstalls the
  configuration that was read, does not hold.  On Linux, for \<^verbatim>\<open>SIGALRM\<close> with a mask of two
  signals, the reference sequence keeps the mask and initialization empties it.
\<close>

theorem spec_read_modify_write_counterexample:
  "14 \<in> set (fixed_signals linux_x86_64) \<and>
   map_option sa_mask (handlers (start go_action) 14) = Some {2, 15} \<and>
   map_option sa_mask (handlers (spec_read_modify_write linux_x86_64 14 (start go_action)) 14)
     = Some {2, 15} \<and>
   map_option sa_mask
     (handlers (snd (LLVMFuzzerInitialize linux_x86_64 zero_frames 0 0 (start go_action))) 14)
     = Some {} \<and>
   handlers (snd (LLVMFuzzerInitialize linux_x86_64 zero_frames 0 0 (start go_action))) 14 \<noteq>
     handlers (spec_read_modify_write linux_x86_64 14 (start go_action)) 14"
proof -
  have h: "handlers (start go_action) 14 = Some go_action"
    by (simp add: start_def)
  have dom: "dom (unchangeable (start go_action)) = {9, 19}"
    by (auto simp: start_def dom_def)
  have a: "map_option sa_mask
      (handlers (spec_read_modify_write linux_x86_64 14 (start go_action)) 14) = Some {2, 15}"
    by (simp add: handlers_spec_read_modify_write [OF h] dom) (simp add: go_action_def)
  have b: "map_option sa_mask
      (handlers (snd (LLVMFuzzerInitialize linux_x86_64 zero_frames 0 0 (start go_action))) 14)
      = Some {}"
    by (simp add: handlers_init h fixed_signals_def linux_x86_64_def reinstalled_def)
  have c: "14 \<in> set (fixed_signals linux_x86_64)"
    by (simp add: fixed_signals_def linux_x86_64_def)
  have d: "map_option sa_mask (handlers (start go_action) 14) = Some {2, 15}"
    unfolding h by (simp add: go_action_def)
  from a b have "handlers (snd (LLVMFuzzerInitialize linux_x86_64 zero_frames 0 0
        (start go_action))) 14 \<noteq>
      handlers (spec_read_modify_write linux_x86_64 14 (start go_action)) 14"
    by auto
  with a b c d show ?thesis by simp
qed

text \<open>
  Claim C4.  \<^verbatim>\<open>LLVMFuzzerInitialize\<close> returns 0 for all arguments and in every state of the
  process, whether the \<^verbatim>\<open>sigaction\<close> calls succeed or fail there (lemma
  \<open>sigaction_return\<close> says when they fail): their return values are not used.
\<close>

theorem LLVMFuzzerInitialize_returns_0:
  "fst (LLVMFuzzerInitialize H fr argc argv p) = 0"
  by (simp add: LLVMFuzzerInitialize_def)

text \<open>
  On Linux, in a process where the query of \<^verbatim>\<open>SIGSEGV\<close> fails and in one where it
  succeeds.
\<close>

theorem LLVMFuzzerInitialize_returns_0_witness:
  "fst (sigaction linux_x86_64 11 None True refusing) = - 1 \<and>
   fst (LLVMFuzzerInitialize linux_x86_64 zero_frames 0 0 refusing) = 0 \<and>
   fst (sigaction linux_x86_64 11 None True (start go_action)) = 0 \<and>
   fst (LLVMFuzzerInitialize linux_x86_64 one_frames 4096 8192 (start go_action)) = 0"
  using LLVMFuzzerInitialize_returns_0 [of linux_x86_64 zero_frames 0 0 refusing]
    LLVMFuzzerInitialize_returns_0 [of linux_x86_64 one_frames 4096 8192 "start go_action"]
  by (simp add: sigaction_return refusing_def start_def)

text \<open>
  Claim C5.  The entry of a signal number that is not among the ten is the same after
  \<^verbatim>\<open>LLVMFuzzerInitialize\<close> as before: handler members, flags and mask.
\<close>

theorem other_signals_untouched:
  assumes "s \<notin> set (fixed_signals H)"
  shows "handlers (snd (LLVMFuzzerInitialize H fr argc argv p)) s = handlers p s"
  using assms by (simp add: handlers_init)

text \<open>On Linux, \<^verbatim>\<open>SIGHUP\<close> (1) is not among the ten.\<close>

theorem other_signals_untouched_witness:
  "1 \<notin> set (fixed_signals linux_x86_64) \<and>
   handlers (snd (LLVMFuzzerInitialize linux_x86_64 zero_frames 0 0 (start go_action))) 1
     = Some go_action"
proof -
  have h1: "1 \<notin> set (fixed_signals linux_x86_64)"
    by (simp add: fixed_signals_def linux_x86_64_def)
  show ?thesis
    using h1 other_signals_untouched [OF h1, of zero_frames 0 0 "start go_action"]
    by (simp add: start_def)
qed

text \<open>
  Claim C6.  The outcome of \<^verbatim>\<open>LLVMFuzzerInitialize\<close> does not depend on its arguments: from
  two states with the same table of signal actions, with any two pairs of arguments (and
  any content of the uninitialised locals and of the memory), the resulting tables are
  equal and so are the return values; the memory, which holds the objects the arguments
  point to, is left as it was; and on one state, two pairs of arguments give the same
  result altogether.
\<close>

theorem arguments_ignored:
  assumes "handlers p = handlers q"
  shows "handlers (snd (LLVMFuzzerInitialize H fr argc argv p)) =
           handlers (snd (LLVMFuzzerInitialize H fr' argc' argv' q)) \<and>
         fst (LLVMFuzzerInitialize H fr argc argv p) =
           fst (LLVMFuzzerInitialize H fr' argc' argv' q) \<and>
         memory (snd (LLVMFuzzerInitialize H fr argc argv p)) = memory p \<and>
         LLVMFuzzerInitialize H fr argc argv p = LLVMFuzzerInitialize H fr argc' argv' p"
proof -
  have "handlers (snd (LLVMFuzzerInitialize H fr argc argv p)) s =
          handlers (snd (LLVMFuzzerInitialize H fr' argc' argv' q)) s" for s
    using assms by (simp add: handlers_init)
  then have "handlers (snd (LLVMFuzzerInitialize H fr argc argv p)) =
          handlers (snd (LLVMFuzzerInitialize H fr' argc' argv' q))"
    by (rule ext)
  moreover have "memory (snd (LLVMFuzzerInitialize H fr argc argv p)) = memory p"
    by (simp add: snd_init FixStackSignalHandler_fix_each memory_fix_each)
  ultimately show ?thesis
    by (simp add: LLVMFuzzerInitialize_def)
qed

text \<open>Two calls that differ in the arguments, in the locals and in the memory.\<close>

theorem arguments_ignored_witness:
  "handlers (start go_action) = handlers ((start go_action)\<lparr>memory := (\<lambda>_. 255)\<rparr>) \<and>
   handlers (snd (LLVMFuzzerInitialize linux_x86_64 zero_frames 0 0 (start go_action))) =
     handlers (snd (LLVMFuzzerInitialize linux_x86_64 one_frames 4096 8192
                      ((start go_action)\<lparr>memory := (\<lambda>_. 255)\<rparr>))) \<and>
   fst (LLVMFuzzerInitialize linux_x86_64 zero_frames 0 0 (start go_action)) =
     fst (LLVMFuzzerInitialize linux_x86_64 one_frames 4096 8192
            ((start go_action)\<lparr>memory := (\<lambda>_. 255)\<rparr>)) \<and>
   memory (snd (LLVMFuzzerInitialize linux_x86_64 zero_frames 0 0 (start go_action))) =
     memory (start go_action) \<and>
   LLVMFuzzerInitialize linux_x86_64 zero_frames 0 0 (start go_action) =
     LLVMFuzzerInitialize linux_x86_64 zero_frames 4096 8192 (start go_action)"
proof -
  have h: "handlers (start go_action) = handlers ((start go_action)\<lparr>memory := (\<lambda>_. 255)\<rparr>)"
    by simp
  show ?thesis
    using h arguments_ignored [OF h, of linux_x86_64 zero_frames 0 0 one_frames 4096 8192]
    by blast
qed

text \<open>
  Claim C7.  For every signal number among the ten that has a registered action, the mask
  of the action registered after initialization is empty, whatever the mask was before.
\<close>

theorem mask_emptied:
  assumes "s \<in> set (fixed_signals H)" and "handlers p s = Some old"
  shows "\<exists>new. handlers (snd (LLVMFuzzerInitialize H fr argc argv p)) s = Some new \<and>
           sa_mask new = {}"
  using assms by (simp add: handlers_init reinstalled_def)

text \<open>On Linux, for \<^verbatim>\<open>SIGINT\<close> (2), whose mask held two signals before.\<close>

theorem mask_emptied_witness:
  "2 \<in> set (fixed_signals linux_x86_64) \<and>
   handlers (start go_action) 2 = Some go_action \<and>
   sa_mask go_action = {2, 15} \<and>
   (\<exists>new. handlers (snd (LLVMFuzzerInitialize linux_x86_64 zero_frames 0 0 (start go_action))) 2
             = Some new \<and>
          sa_mask new = {})"
proof -
  have h1: "2 \<in> set (fixed_signals linux_x86_64)"
    by (simp add: fixed_signals_def linux_x86_64_def)
  have h2: "handlers (start go_action) 2 = Some go_action"
    by (simp add: start_def)
  show ?thesis
    using h1 h2 mask_emptied [OF h1 h2, of zero_frames 0 0]
    by (simp add: go_action_def)
qed

text \<open>
  Claim C8.  \<^verbatim>\<open>FixStackSignalHandler\<close> is idempotent on the table of signal actions: a second
  application leaves the table that the first one produced.  In particular the flags of a
  signal among the ten that already has \<^verbatim>\<open>SA_ONSTACK\<close> and the flags of the C library set
  are not changed.
\<close>

theorem FixStackSignalHandler_idempotent:
  "handlers (FixStackSignalHandler H fr' (FixStackSignalHandler H fr p)) =
     handlers (FixStackSignalHandler H fr p) \<and>
   (\<forall>s old. s \<in> set (fixed_signals H) \<and> handlers p s = Some old \<and>
       sa_flags old AND (SA_ONSTACK H OR libc_flags H) = SA_ONSTACK H OR libc_flags H \<longrightarrow>
       (\<exists>new. handlers (FixStackSignalHandler H fr p) s = Some new \<and>
              sa_flags new = sa_flags old))"
proof -
  have "handlers (FixStackSignalHandler H fr' (FixStackSignalHandler H fr p)) s =
          handlers (FixStackSignalHandler H fr p) s" for s
    by (cases "handlers p s")
       (simp_all add: handlers_FixStackSignalHandler reinstalled_idem)
  then have "handlers (FixStackSignalHandler H fr' (FixStackSignalHandler H fr p)) =
          handlers (FixStackSignalHandler H fr p)"
    by (rule ext)
  then show ?thesis
    by (simp add: handlers_FixStackSignalHandler reinstalled_def and_both_or)
qed

text \<open>
  On Linux, and for \<^verbatim>\<open>SIGTERM\<close> (15) with \<^verbatim>\<open>SA_ONSTACK\<close> and \<^verbatim>\<open>SA_RESTORER\<close> already set.
\<close>

theorem FixStackSignalHandler_idempotent_witness:
  "handlers (FixStackSignalHandler linux_x86_64 one_frames
              (FixStackSignalHandler linux_x86_64 zero_frames (start go_action))) =
     handlers (FixStackSignalHandler linux_x86_64 zero_frames (start go_action)) \<and>
   15 \<in> set (fixed_signals linux_x86_64) \<and>
   handlers (start go_action_installed) 15 = Some go_action_installed \<and>
   sa_flags go_action_installed AND (SA_ONSTACK linux_x86_64 OR libc_flags linux_x86_64) =
     SA_ONSTACK linux_x86_64 OR libc_flags linux_x86_64 \<and>
   (\<exists>new. handlers (FixStackSignalHandler linux_x86_64 zero_frames (start go_action_installed)) 15
             = Some new \<and>
          sa_flags new = 0x1c000004)"
proof -
  have h1: "15 \<in> set (fixed_signals linux_x86_64)"
    by (simp add: fixed_signals_def linux_x86_64_def)
  have h2: "handlers (start go_action_installed) 15 = Some go_action_installed"
    by (simp add: start_def)
  have h3: "sa_flags go_action_installed AND (SA_ONSTACK linux_x86_64 OR libc_flags linux_x86_64)
      = SA_ONSTACK linux_x86_64 OR libc_flags linux_x86_64"
    by (simp add: go_action_installed_def linux_x86_64_def)
  have h4: "sa_flags go_action_installed = 0x1c000004"
    by (simp add: go_action_installed_def)
  have twice: "handlers (FixStackSignalHandler linux_x86_64 one_frames
              (FixStackSignalHandler linux_x86_64 zero_frames (start go_action))) =
     handlers (FixStackSignalHandler linux_x86_64 zero_frames (start go_action))"
    using FixStackSignalHandler_idempotent
      [of linux_x86_64 one_frames zero_frames "start go_action"]
    by blast
  have "\<exists>new. handlers (FixStackSignalHandler linux_x86_64 zero_frames
            (start go_action_installed)) 15 = Some new \<and>
          sa_flags new = sa_flags go_action_installed"
    using h1 h2 h3 FixStackSignalHandler_idempotent
        [of linux_x86_64 one_frames zero_frames "start go_action_installed"]
    by blast
  with twice h1 h2 h3 h4 show ?thesis by simp
qed

text \<open>
  Claim C8 with \<^verbatim>\<open>SA_ONSTACK\<close> alone already set does not hold.  On Linux, the flags
  \<^verbatim>\<open>0x18000004\<close> of \<^verbatim>\<open>SIGTERM\<close> contain \<^verbatim>\<open>SA_ONSTACK\<close> and become \<^verbatim>\<open>0x1c000004\<close>.
\<close>

theorem onstack_flags_changed_counterexample:
  "15 \<in> set (fixed_signals linux_x86_64) \<and>
   map_option sa_flags (handlers (start go_action_onstack) 15) = Some 0x18000004 \<and>
   (0x18000004 :: 32 word) AND SA_ONSTACK linux_x86_64 = SA_ONSTACK linux_x86_64 \<and>
   map_option sa_flags
     (handlers (FixStackSignalHandler linux_x86_64 zero_frames (start go_action_onstack)) 15)
     = Some 0x1c000004"
  by (simp add: handlers_FixStackSignalHandler fixed_signals_def linux_x86_64_def start_def
        go_action_onstack_def reinstalled_def)



end
